theory Spec2Isabelle
  imports Main "HOL-Library.Word"
begin

section \<open>JavaScript strings\<close>

text \<open>
  A JavaScript string is a sequence of 16-bit UTF-16 code units; \<open>length\<close>, \<open>===\<close>,
  \<open>trim\<close> and a regular expression without the \<open>u\<close> flag all work on code units.
  \<open>js\<close> writes an ASCII literal of the source as such a sequence.
\<close>

type_synonym jschar = "16 word"
type_synonym jsstring = "jschar list"

definition js :: "string \<Rightarrow> jsstring" where
  "js s = map of_char s"

text \<open>
  ECMAScript \<open>LineTerminator\<close>: LF, CR, U+2028 LINE SEPARATOR, U+2029 PARAGRAPH SEPARATOR.
\<close>

definition isLineTerminator :: "jschar \<Rightarrow> bool" where
  "isLineTerminator c \<longleftrightarrow> c = 0x000A \<or> c = 0x000D \<or> c = 0x2028 \<or> c = 0x2029"

text \<open>
  ECMAScript \<open>WhiteSpace\<close>: TAB, VT, FF, U+FEFF and the Unicode space separators
  (U+0020, U+00A0, U+1680, U+2000 to U+200A, U+202F, U+205F, U+3000).
\<close>

definition isWhiteSpace :: "jschar \<Rightarrow> bool" where
  "isWhiteSpace c \<longleftrightarrow>
     c = 0x0009 \<or> c = 0x000B \<or> c = 0x000C \<or> c = 0xFEFF \<or>
     c = 0x0020 \<or> c = 0x00A0 \<or> c = 0x1680 \<or> (0x2000 \<le> c \<and> c \<le> 0x200A) \<or>
     c = 0x202F \<or> c = 0x205F \<or> c = 0x3000"

text \<open>
  \<open>String.prototype.trim\<close> removes white space and line terminators from both ends.
\<close>

definition isTrimmed :: "jschar \<Rightarrow> bool" where
  "isTrimmed c \<longleftrightarrow> isWhiteSpace c \<or> isLineTerminator c"

definition trim :: "jsstring \<Rightarrow> jsstring" where
  "trim s = rev (dropWhile isTrimmed (rev (dropWhile isTrimmed s)))"

text \<open>Truthiness of a string value: every string but the empty one.\<close>

definition truthy :: "jsstring \<Rightarrow> bool" where
  "truthy s \<longleftrightarrow> s \<noteq> []"

section \<open>Regular expressions\<close>

text \<open>
  The fragment of ECMAScript regular expressions (no flags) that the password pattern is
  written in: character classes of ranges, \<open>\d\<close>, \<open>\W\<close> and single characters; the dot;
  greedy repetition \<open>*\<close> and \<open>{n,}\<close> of one of these; positive lookahead \<open>(?=...)\<close>;
  the assertions \<open>^\<close> and \<open>$\<close>. The matcher backtracks over every number of repetitions.
\<close>

datatype classItem =
    Range jschar jschar
  | Digit
  | NonWord
  | Lit jschar

definition isWordChar :: "jschar \<Rightarrow> bool" where
  \<comment> \<open>\<open>\w\<close> is \<open>[A-Za-z0-9_]\<close>\<close>
  "isWordChar c \<longleftrightarrow>
     (0x41 \<le> c \<and> c \<le> 0x5A) \<or> (0x61 \<le> c \<and> c \<le> 0x7A) \<or> (0x30 \<le> c \<and> c \<le> 0x39) \<or> c = 0x5F"

fun classItemMatches :: "classItem \<Rightarrow> jschar \<Rightarrow> bool" where
  "classItemMatches (Range lo hi) c \<longleftrightarrow> lo \<le> c \<and> c \<le> hi"
| "classItemMatches Digit c \<longleftrightarrow> 0x30 \<le> c \<and> c \<le> 0x39"
| "classItemMatches NonWord c \<longleftrightarrow> \<not> isWordChar c"
| "classItemMatches (Lit d) c \<longleftrightarrow> c = d"

datatype atom =
    Dot
  | Class "classItem list"

fun atomMatches :: "atom \<Rightarrow> jschar \<Rightarrow> bool" where
  "atomMatches Dot c \<longleftrightarrow> \<not> isLineTerminator c"
| "atomMatches (Class items) c \<longleftrightarrow> list_ex (\<lambda>i. classItemMatches i c) items"

datatype node =
    One atom
  | AtLeast nat atom
  | Lookahead "node list"
  | InputStart
  | InputEnd

text \<open>
  \<open>matchesAt ns k s\<close>: the sequence \<open>ns\<close> matches at index \<open>k\<close> of the input, of which
  \<open>s\<close> is the part from \<open>k\<close> on. Without the \<open>m\<close> flag \<open>^\<close> holds at index 0 only
  and \<open>$\<close> at the end of the input only.
\<close>

fun matchesAt :: "node list \<Rightarrow> nat \<Rightarrow> jsstring \<Rightarrow> bool" where
  "matchesAt [] k s \<longleftrightarrow> True"
| "matchesAt (One a # ns) k [] \<longleftrightarrow> False"
| "matchesAt (One a # ns) k (c # cs) \<longleftrightarrow> atomMatches a c \<and> matchesAt ns (Suc k) cs"
| "matchesAt (AtLeast 0 a # ns) k [] \<longleftrightarrow> matchesAt ns k []"
| "matchesAt (AtLeast 0 a # ns) k (c # cs) \<longleftrightarrow>
     (atomMatches a c \<and> matchesAt (AtLeast 0 a # ns) (Suc k) cs) \<or> matchesAt ns k (c # cs)"
| "matchesAt (AtLeast (Suc n) a # ns) k [] \<longleftrightarrow> False"
| "matchesAt (AtLeast (Suc n) a # ns) k (c # cs) \<longleftrightarrow>
     atomMatches a c \<and> matchesAt (AtLeast n a # ns) (Suc k) cs"
| "matchesAt (Lookahead ls # ns) k s \<longleftrightarrow> matchesAt ls k s \<and> matchesAt ns k s"
| "matchesAt (InputStart # ns) k s \<longleftrightarrow> k = 0 \<and> matchesAt ns k s"
| "matchesAt (InputEnd # ns) k s \<longleftrightarrow> s = [] \<and> matchesAt ns k s"

text \<open>
  \<open>RegExp.prototype.test\<close> on a pattern without the \<open>g\<close> and \<open>y\<close> flags: the pattern
  matches at some index of the input, tried from 0 upwards.
\<close>

definition test :: "node list \<Rightarrow> jsstring \<Rightarrow> bool" where
  "test ns s \<longleftrightarrow> list_ex (\<lambda>k. matchesAt ns k (drop k s)) [0..<Suc (length s)]"

section \<open>The sign-up form (\<open>src/frontend/src/pages/SignUp.tsx\<close>)\<close>

subsection \<open>Data\<close>

text \<open>The interface \<open>FormData\<close>: the three input values.\<close>

record FormData =
  email :: jsstring
  password :: jsstring
  passwordValidate :: jsstring

text \<open>
  The interface \<open>FormErrors\<close>; its fields \<open>email\<close>, \<open>password\<close> and \<open>passwordValidate\<close>
  carry the suffix \<open>Error\<close> here, since a record field name is global. \<open>repeatPassword\<close>
  is declared optional (\<open>repeatPassword?: string\<close>): \<open>None\<close> is the absent property,
  read as \<open>undefined\<close>.
\<close>

record FormErrors =
  emailError :: jsstring
  passwordError :: jsstring
  repeatPassword :: "jsstring option"
  passwordValidateError :: jsstring

text \<open>\<open>keyof FormData\<close>\<close>

datatype field = Email | Password | PasswordValidate

text \<open>The three pieces of component state held by \<open>useState\<close>.\<close>

record state =
  formData :: FormData
  errors :: FormErrors
  isSubmitting :: bool

definition initialState :: state where
  "initialState =
     \<lparr>formData = \<lparr>email = [], password = [], passwordValidate = []\<rparr>,
      errors = \<lparr>emailError = [], passwordError = [], repeatPassword = Some [],
                passwordValidateError = []\<rparr>,
      isSubmitting = False\<rparr>"

definition REQUIRED :: jsstring where
  "REQUIRED = js ''Required''"

definition PASSWORD_REQUIREMENTS_MISMATCH :: jsstring where
  "PASSWORD_REQUIREMENTS_MISMATCH =
     js ''Password must contain at least 8 characters, one uppercase letter, one lowercase letter, and one number and special character''"

definition PASSWORDS_DO_NOT_MATCH :: jsstring where
  "PASSWORDS_DO_NOT_MATCH = js ''Passwords do not match''"

text \<open>Truthiness of an optional string property: \<open>undefined\<close> and \<open>""\<close> are falsy.\<close>

fun truthyOpt :: "jsstring option \<Rightarrow> bool" where
  "truthyOpt None \<longleftrightarrow> False"
| "truthyOpt (Some s) \<longleftrightarrow> truthy s"

subsection \<open>Validators\<close>

definition validateEmpty :: "jsstring \<Rightarrow> jsstring" where
  "validateEmpty v = (if truthy (trim v) then [] else REQUIRED)"

text \<open>
  \<open>/^(?=.*[a-z])(?=.*[A-Z])(?=.*\d)(?=.*[\W_])[a-zA-Z\d\W_]{8,}$/\<close>
\<close>

definition passwordRegex :: "node list" where
  "passwordRegex =
     [InputStart,
      Lookahead [AtLeast 0 Dot, One (Class [Range 0x61 0x7A])],
      Lookahead [AtLeast 0 Dot, One (Class [Range 0x41 0x5A])],
      Lookahead [AtLeast 0 Dot, One (Class [Digit])],
      Lookahead [AtLeast 0 Dot, One (Class [NonWord, Lit 0x5F])],
      AtLeast 8 (Class [Range 0x61 0x7A, Range 0x41 0x5A, Digit, NonWord, Lit 0x5F]),
      InputEnd]"

definition validatePassword :: "jsstring \<Rightarrow> jsstring" where
  "validatePassword pw =
     (if \<not> truthy (trim pw) then REQUIRED
      else if \<not> test passwordRegex pw then PASSWORD_REQUIREMENTS_MISMATCH
      else [])"

subsection \<open>\<open>validate\<close>: the handler of \<open>onChange\<close> and \<open>onBlur\<close>\<close>

text \<open>The computed property \<open>[field]: value\<close> of an object literal.\<close>

fun setField :: "field \<Rightarrow> jsstring \<Rightarrow> FormData \<Rightarrow> FormData" where
  "setField Email v d = d\<lparr>email := v\<rparr>"
| "setField Password v d = d\<lparr>password := v\<rparr>"
| "setField PasswordValidate v d = d\<lparr>passwordValidate := v\<rparr>"

fun setError :: "field \<Rightarrow> jsstring \<Rightarrow> FormErrors \<Rightarrow> FormErrors" where
  "setError Email v e = e\<lparr>emailError := v\<rparr>"
| "setError Password v e = e\<lparr>passwordError := v\<rparr>"
| "setError PasswordValidate v e = e\<lparr>passwordValidateError := v\<rparr>"

text \<open>
  \<open>formData\<close> and \<open>errors\<close> in the body are the values of the render in which the handler
  was created: the state before the event. Both setters replace their state.
\<close>

definition validate :: "field \<Rightarrow> jsstring \<Rightarrow> state \<Rightarrow> state" where
  "validate fld v st =
     (let st1 = st\<lparr>formData := setField fld v (formData st)\<rparr> in
      if fld = Email then
        st1\<lparr>errors := setError fld (validateEmpty v) (errors st)\<rparr>
      else
        let isPasswordField = (fld = Password);
            passwordsMatch = (if isPasswordField then v = passwordValidate (formData st)
                              else v = password (formData st))
        in st1\<lparr>errors := (setError fld (validateEmpty v) (errors st))
                   \<lparr>repeatPassword := Some (if passwordsMatch then [] else PASSWORDS_DO_NOT_MATCH)\<rparr>\<rparr>)"

subsection \<open>\<open>handleSubmit\<close>\<close>

text \<open>
  \<open>register\<close> comes from \<open>../helpers/api\<close> and is a parameter of the model. The awaited
  promise either resolves with a response, whose \<open>message\<close> may be absent, or rejects.
\<close>

record response =
  message :: "jsstring option"

datatype outcome = Resolves response | Rejects

record credentials =
  credEmail :: jsstring
  credPassword :: jsstring

text \<open>
  What the handler does beyond computing the next errors, in order: the calls of
  \<open>e.preventDefault\<close>, \<open>setIsSubmitting\<close>, \<open>register\<close>, \<open>toast.error\<close>, \<open>toast.success\<close>
  and \<open>history.push\<close>. The notification and navigation calls are taken to return: only
  \<open>register\<close> can make the \<open>try\<close> block throw.
\<close>

datatype event =
    PreventDefault
  | SetIsSubmitting bool
  | RegisterCall credentials
  | ToastError jsstring
  | ToastSuccess jsstring
  | HistoryPush jsstring

text \<open>
  The result is the state after the handler has run to its end, with the calls it made.
  \<open>the (message r)\<close> is read only where \<open>message r\<close> is truthy, hence present.
\<close>

definition handleSubmit :: "(credentials \<Rightarrow> outcome) \<Rightarrow> state \<Rightarrow> state \<times> event list" where
  "handleSubmit register st =
     (let email' = email (formData st);
          password' = password (formData st);
          passwordValidate' = passwordValidate (formData st);
          emailErr = validateEmpty email';
          passwordErr = validatePassword password';
          passwordValidateErr =
            (if \<not> truthy (trim passwordValidate') then REQUIRED
             else if password' \<noteq> passwordValidate' then PASSWORDS_DO_NOT_MATCH
             else []);
          st1 = st\<lparr>errors := \<lparr>emailError = emailErr, passwordError = passwordErr,
                               repeatPassword = None,
                               passwordValidateError = passwordValidateErr\<rparr>\<rparr>
      in
        if truthy emailErr \<or> truthy passwordErr \<or> truthy passwordValidateErr then
          (st1, [PreventDefault])
        else
          let creds = \<lparr>credEmail = email', credPassword = password'\<rparr> in
          (st1\<lparr>isSubmitting := False\<rparr>,
           [PreventDefault, SetIsSubmitting True, RegisterCall creds] @
           (case register creds of
              Resolves r \<Rightarrow>
                (if truthyOpt (message r) then [ToastError (the (message r))]
                 else [ToastSuccess (js ''Registered successfully''), HistoryPush (js ''/login'')])
            | Rejects \<Rightarrow> [ToastError (js ''An error occurred while registering'')]) @
           [SetIsSubmitting False]))"

subsection \<open>The submit button\<close>

definition submitDisabled :: "state \<Rightarrow> bool" where
  "submitDisabled st \<longleftrightarrow>
     isSubmitting st \<or> truthy (emailError (errors st)) \<or> truthy (passwordError (errors st)) \<or>
     truthy (passwordValidateError (errors st))"

subsection \<open>Reading a run of \<open>handleSubmit\<close>\<close>

text \<open>A registration call that settles the same way whatever the credentials.\<close>

definition registerReturning :: "outcome \<Rightarrow> credentials \<Rightarrow> outcome" where
  "registerReturning out creds = out"

fun isNotification :: "event \<Rightarrow> bool" where
  "isNotification (ToastError m) \<longleftrightarrow> True"
| "isNotification (ToastSuccess m) \<longleftrightarrow> True"
| "isNotification e \<longleftrightarrow> False"

fun isNavigation :: "event \<Rightarrow> bool" where
  "isNavigation (HistoryPush p) \<longleftrightarrow> True"
| "isNavigation e \<longleftrightarrow> False"

fun isRegisterCall :: "event \<Rightarrow> bool" where
  "isRegisterCall (RegisterCall c) \<longleftrightarrow> True"
| "isRegisterCall e \<longleftrightarrow> False"

definition notifications :: "event list \<Rightarrow> event list" where
  "notifications tr = filter isNotification tr"

definition navigations :: "event list \<Rightarrow> event list" where
  "navigations tr = filter isNavigation tr"

definition registerCalls :: "event list \<Rightarrow> event list" where
  "registerCalls tr = filter isRegisterCall tr"

text \<open>The form as a user has filled it in, with no error shown.\<close>

definition filledIn :: "jsstring \<Rightarrow> jsstring \<Rightarrow> jsstring \<Rightarrow> state" where
  "filledIn e p pv =
     initialState\<lparr>formData := \<lparr>email = e, password = p, passwordValidate = pv\<rparr>\<rparr>"

subsection \<open>The password policy in the words of the specification\<close>

definition isLower :: "jschar \<Rightarrow> bool" where
  "isLower c \<longleftrightarrow> 0x61 \<le> c \<and> c \<le> 0x7A"

definition isUpper :: "jschar \<Rightarrow> bool" where
  "isUpper c \<longleftrightarrow> 0x41 \<le> c \<and> c \<le> 0x5A"

definition isDigit :: "jschar \<Rightarrow> bool" where
  "isDigit c \<longleftrightarrow> 0x30 \<le> c \<and> c \<le> 0x39"

definition isSpecial :: "jschar \<Rightarrow> bool" where
  \<comment> \<open>a character outside \<open>[A-Za-z0-9]\<close>\<close>
  "isSpecial c \<longleftrightarrow> \<not> (isLower c \<or> isUpper c \<or> isDigit c)"

text \<open>
  Follows the specification, not the source: at least 8 characters, with a lowercase
  letter, an uppercase letter, a digit and a character outside \<open>[A-Za-z0-9]\<close> among them.
\<close>

definition policyAsSpecified :: "jsstring \<Rightarrow> bool" where
  "policyAsSpecified s \<longleftrightarrow>
     8 \<le> length s \<and> list_ex isLower s \<and> list_ex isUpper s \<and> list_ex isDigit s \<and>
     list_ex isSpecial s"

text \<open>
  What a lookahead \<open>(?=.*X)\<close> at index 0 can reach: the characters before the first line
  terminator, and that terminator itself.
\<close>

definition firstLine :: "jsstring \<Rightarrow> jsstring" where
  "firstLine s = takeWhile (\<lambda>c. \<not> isLineTerminator c) s"

definition reach :: "jsstring \<Rightarrow> jsstring" where
  "reach s = take (Suc (length (firstLine s))) s"

section \<open>Facts about the messages and the matcher\<close>

lemma REQUIRED_nonempty: "REQUIRED \<noteq> []"
  by (simp add: REQUIRED_def js_def)

lemma PASSWORD_REQUIREMENTS_MISMATCH_nonempty: "PASSWORD_REQUIREMENTS_MISMATCH \<noteq> []"
  by (simp add: PASSWORD_REQUIREMENTS_MISMATCH_def js_def)

lemma PASSWORDS_DO_NOT_MATCH_nonempty: "PASSWORDS_DO_NOT_MATCH \<noteq> []"
  by (simp add: PASSWORDS_DO_NOT_MATCH_def js_def)

lemma REQUIRED_not_policy: "REQUIRED \<noteq> PASSWORD_REQUIREMENTS_MISMATCH"
  by (simp add: REQUIRED_def PASSWORD_REQUIREMENTS_MISMATCH_def js_def)

lemma PASSWORDS_DO_NOT_MATCH_not_policy:
  "PASSWORDS_DO_NOT_MATCH \<noteq> PASSWORD_REQUIREMENTS_MISMATCH"
  by (simp add: PASSWORDS_DO_NOT_MATCH_def PASSWORD_REQUIREMENTS_MISMATCH_def js_def)

lemma reach_Nil: "reach [] = []"
  by (simp add: reach_def firstLine_def)

lemma reach_Cons: "reach (c # cs) = (if isLineTerminator c then [c] else c # reach cs)"
  by (simp add: reach_def firstLine_def)

text \<open>\<open>.*X\<close> finds an \<open>X\<close> exactly among the characters it can reach.\<close>

lemma lookahead_dot_star:
  "matchesAt [AtLeast 0 Dot, One a] k s \<longleftrightarrow> list_ex (atomMatches a) (reach s)"
proof (induction s arbitrary: k)
  case Nil
  show ?case by (simp add: reach_Nil)
next
  case (Cons c cs)
  show ?case by (auto simp: Cons.IH reach_Cons)
qed

text \<open>\<open>X{n,}$\<close> takes the whole rest of the input.\<close>

lemma at_least_to_end:
  "matchesAt [AtLeast n a, InputEnd] k s \<longleftrightarrow> n \<le> length s \<and> list_all (atomMatches a) s"
proof (induction s arbitrary: n k)
  case Nil
  show ?case by (cases n) simp_all
next
  case (Cons c cs)
  show ?case by (cases n) (auto simp: Cons.IH)
qed

lemma test_anchored: "test (InputStart # ns) s \<longleftrightarrow> matchesAt ns 0 s"
  by (auto simp: test_def list_ex_iff intro: bexI [of _ 0])

text \<open>The class \<open>[a-zA-Z\d\W_]\<close> excludes no code unit.\<close>

lemma body_class_any:
  "atomMatches (Class [Range 0x61 0x7A, Range 0x41 0x5A, Digit, NonWord, Lit 0x5F]) c"
  by (auto simp: isWordChar_def)

lemma special_class: "atomMatches (Class [NonWord, Lit 0x5F]) c \<longleftrightarrow> isSpecial c"
  by (auto simp: isWordChar_def isSpecial_def isLower_def isUpper_def isDigit_def)

lemma matchesAt_lookahead:
  "matchesAt (Lookahead ls # ns) k s \<longleftrightarrow> matchesAt ls k s \<and> matchesAt ns k s"
  by simp

text \<open>
  What the pattern accepts: 8 code units or more, with each of the four kinds of character
  within reach of its lookahead.
\<close>

lemma test_passwordRegex:
  "test passwordRegex s \<longleftrightarrow>
     8 \<le> length s \<and> list_ex isLower (reach s) \<and> list_ex isUpper (reach s) \<and>
     list_ex isDigit (reach s) \<and> list_ex isSpecial (reach s)"
proof -
  have lower: "atomMatches (Class [Range 0x61 0x7A]) = isLower"
    by (rule ext) (simp add: isLower_def)
  have upper: "atomMatches (Class [Range 0x41 0x5A]) = isUpper"
    by (rule ext) (simp add: isUpper_def)
  have digit: "atomMatches (Class [Digit]) = isDigit"
    by (rule ext) (simp add: isDigit_def)
  have special: "atomMatches (Class [NonWord, Lit 0x5F]) = isSpecial"
    by (rule ext) (rule special_class)
  have body:
    "list_all (atomMatches (Class [Range 0x61 0x7A, Range 0x41 0x5A, Digit, NonWord, Lit 0x5F])) s"
    unfolding list_all_iff using body_class_any by blast
  show ?thesis
    unfolding passwordRegex_def test_anchored matchesAt_lookahead lookahead_dot_star
      at_least_to_end lower upper digit special
    using body by auto
qed

section \<open>Facts about the validators\<close>

lemma reach_no_terminator: "\<not> list_ex isLineTerminator s \<Longrightarrow> reach s = s"
  by (induction s) (simp_all add: reach_Nil reach_Cons)

text \<open>\<open>trim\<close> leaves nothing exactly of a string of white space and line terminators.\<close>

lemma trim_empty_iff: "trim s = [] \<longleftrightarrow> list_all isTrimmed s"
proof
  assume "list_all isTrimmed s"
  then have d: "dropWhile isTrimmed s = []" by (simp only: list_all_iff dropWhile_eq_Nil_conv)
  show "trim s = []" unfolding trim_def d by simp
next
  assume e: "trim s = []"
  show "list_all isTrimmed s"
  proof (rule ccontr)
    assume "\<not> list_all isTrimmed s"
    then have ne: "dropWhile isTrimmed s \<noteq> []" by (simp only: list_all_iff dropWhile_eq_Nil_conv not_False_eq_True)
    then have "\<not> isTrimmed (hd (dropWhile isTrimmed s))" by (rule hd_dropWhile)
    moreover have "hd (dropWhile isTrimmed s) \<in> set (rev (dropWhile isTrimmed s))"
      using ne by simp
    ultimately have "dropWhile isTrimmed (rev (dropWhile isTrimmed s)) \<noteq> []"
      by (metis dropWhile_eq_Nil_conv)
    then show False using e unfolding trim_def by simp
  qed
qed

lemma lower_not_trimmed: "isLower c \<Longrightarrow> \<not> isTrimmed c"
  by (auto simp: isLower_def isTrimmed_def isWhiteSpace_def isLineTerminator_def word_le_nat_alt)

lemma test_passwordRegex_truthy: "test passwordRegex s \<Longrightarrow> truthy (trim s)"
proof -
  assume "test passwordRegex s"
  then have "list_ex isLower (reach s)" by (simp add: test_passwordRegex)
  then obtain c where "c \<in> set (reach s)" "isLower c" by (auto simp: list_ex_iff)
  then have "c \<in> set s" "\<not> isTrimmed c"
    by (auto simp: reach_def dest: in_set_takeD lower_not_trimmed)
  then have "\<not> list_all isTrimmed s" by (auto simp: list_all_iff)
  then show ?thesis by (simp add: truthy_def trim_empty_iff)
qed

lemma validatePassword_accepts:
  "validatePassword s = [] \<longleftrightarrow>
     8 \<le> length s \<and> list_ex isLower (reach s) \<and> list_ex isUpper (reach s) \<and>
     list_ex isDigit (reach s) \<and> list_ex isSpecial (reach s)"
  using test_passwordRegex_truthy [of s] test_passwordRegex [of s]
  by (auto simp add: validatePassword_def REQUIRED_nonempty PASSWORD_REQUIREMENTS_MISMATCH_nonempty)

lemma validatePassword_single_line:
  "\<not> list_ex isLineTerminator s \<Longrightarrow> validatePassword s = [] \<longleftrightarrow> policyAsSpecified s"
  by (simp add: validatePassword_accepts reach_no_terminator policyAsSpecified_def)

lemma validatePassword_required: "\<not> truthy (trim s) \<Longrightarrow> validatePassword s = REQUIRED"
  by (simp add: validatePassword_def)

lemma validatePassword_rejects:
  "truthy (trim s) \<Longrightarrow> validatePassword s \<noteq> [] \<Longrightarrow>
     validatePassword s = PASSWORD_REQUIREMENTS_MISMATCH"
  by (simp add: validatePassword_def split: if_splits)

lemma validateEmpty_cases: "validateEmpty v = [] \<or> validateEmpty v = REQUIRED"
  by (simp add: validateEmpty_def)

lemma validateEmpty_not_policy: "validateEmpty v \<noteq> PASSWORD_REQUIREMENTS_MISMATCH"
  using PASSWORD_REQUIREMENTS_MISMATCH_nonempty REQUIRED_not_policy
  by (auto simp: validateEmpty_def)

section \<open>Facts about \<open>handleSubmit\<close>\<close>

lemma handleSubmit_state_errors:
  "errors (fst (handleSubmit register st)) =
     \<lparr>emailError = validateEmpty (email (formData st)),
      passwordError = validatePassword (password (formData st)),
      repeatPassword = None,
      passwordValidateError =
        (if \<not> truthy (trim (passwordValidate (formData st))) then REQUIRED
         else if password (formData st) \<noteq> passwordValidate (formData st) then PASSWORDS_DO_NOT_MATCH
         else [])\<rparr>"
  by (simp add: handleSubmit_def Let_def)

lemma handleSubmit_rejected:
  assumes "truthy (emailError (errors (fst (handleSubmit register st)))) \<or>
           truthy (passwordError (errors (fst (handleSubmit register st)))) \<or>
           truthy (passwordValidateError (errors (fst (handleSubmit register st))))"
  shows "snd (handleSubmit register st) = [PreventDefault]"
    and "isSubmitting (fst (handleSubmit register st)) = isSubmitting st"
    and "formData (fst (handleSubmit register st)) = formData st"
  using assms unfolding handleSubmit_state_errors
  by (auto simp add: handleSubmit_def Let_def)

lemma handleSubmit_accepted:
  assumes "emailError (errors (fst (handleSubmit register st))) = []"
    and "passwordError (errors (fst (handleSubmit register st))) = []"
    and "passwordValidateError (errors (fst (handleSubmit register st))) = []"
  shows "snd (handleSubmit register st) =
           [PreventDefault, SetIsSubmitting True,
            RegisterCall \<lparr>credEmail = email (formData st), credPassword = password (formData st)\<rparr>] @
           (case register \<lparr>credEmail = email (formData st), credPassword = password (formData st)\<rparr> of
              Resolves r \<Rightarrow>
                (if truthyOpt (message r) then [ToastError (the (message r))]
                 else [ToastSuccess (js ''Registered successfully''), HistoryPush (js ''/login'')])
            | Rejects \<Rightarrow> [ToastError (js ''An error occurred while registering'')]) @
           [SetIsSubmitting False]"
    and "isSubmitting (fst (handleSubmit register st)) = False"
    and "formData (fst (handleSubmit register st)) = formData st"
  using assms unfolding handleSubmit_state_errors
  by (auto simp add: handleSubmit_def Let_def truthy_def)

section \<open>Claims\<close>

subsection \<open>C1: what \<open>handleSubmit\<close> does to the error state\<close>

text \<open>
  C1, as amended. \<open>handleSubmit\<close> replaces the whole error object by a new one that
  holds the three freshly computed errors of \<open>email\<close>, \<open>password\<close> and \<open>passwordValidate\<close>
  and no \<open>repeatPassword\<close> property: whatever the mismatch error was before, it is absent
  (and so shown as empty) afterwards. The field values are left as they were.
\<close>

theorem handleSubmit_replaces_errors:
  "errors (fst (handleSubmit register st)) =
     \<lparr>emailError = validateEmpty (email (formData st)),
      passwordError = validatePassword (password (formData st)),
      repeatPassword = None,
      passwordValidateError =
        (if \<not> truthy (trim (passwordValidate (formData st))) then REQUIRED
         else if password (formData st) \<noteq> passwordValidate (formData st)
           then PASSWORDS_DO_NOT_MATCH
         else [])\<rparr> \<and>
   \<not> truthyOpt (repeatPassword (errors (fst (handleSubmit register st)))) \<and>
   formData (fst (handleSubmit register st)) = formData st"
  by (simp add: handleSubmit_def Let_def)

text \<open>
  The amended C1 after one keystroke in the password field of the empty form, which sets the
  mismatch error.
\<close>

theorem handleSubmit_replaces_errors_witness:
  "errors (fst (handleSubmit (registerReturning Rejects)
      (validate Password (js ''a'') initialState))) =
     \<lparr>emailError = REQUIRED, passwordError = PASSWORD_REQUIREMENTS_MISMATCH,
      repeatPassword = None, passwordValidateError = REQUIRED\<rparr>"
  using handleSubmit_replaces_errors
    [of "registerReturning Rejects" "validate Password (js ''a'') initialState"]
  by code_simp

text \<open>
  C1 as stated fails: the mismatch error set by that keystroke is not the mismatch error
  after the submit.
\<close>

theorem handleSubmit_keeps_mismatch_counterexample:
  "repeatPassword (errors (validate Password (js ''a'') initialState)) =
     Some PASSWORDS_DO_NOT_MATCH \<and>
   repeatPassword (errors (fst (handleSubmit (registerReturning Rejects)
      (validate Password (js ''a'') initialState)))) = None \<and>
   repeatPassword (errors (fst (handleSubmit (registerReturning Rejects)
      (validate Password (js ''a'') initialState)))) \<noteq>
   repeatPassword (errors (validate Password (js ''a'') initialState))"
  by (simp add: handleSubmit_state_errors) (simp add: validate_def initialState_def js_def)

subsection \<open>C2: when the mismatch error is set\<close>

text \<open>
  C2, as amended. After \<open>validate\<close> on the password or on the confirmation field, the
  mismatch error is non-empty if and only if the new value differs from the stored value of
  the other field, that is, if and only if the two values differ after the update. Neither
  value is trimmed or tested for emptiness.
\<close>

theorem validate_mismatch_iff_unequal:
  "(truthyOpt (repeatPassword (errors (validate Password v st))) \<longleftrightarrow>
      v \<noteq> passwordValidate (formData st)) \<and>
   (truthyOpt (repeatPassword (errors (validate PasswordValidate v st))) \<longleftrightarrow>
      v \<noteq> password (formData st)) \<and>
   (truthyOpt (repeatPassword (errors (validate Password v st))) \<longleftrightarrow>
      password (formData (validate Password v st)) \<noteq>
      passwordValidate (formData (validate Password v st))) \<and>
   (truthyOpt (repeatPassword (errors (validate PasswordValidate v st))) \<longleftrightarrow>
      password (formData (validate PasswordValidate v st)) \<noteq>
      passwordValidate (formData (validate PasswordValidate v st)))"
  by (auto simp add: validate_def truthy_def PASSWORDS_DO_NOT_MATCH_nonempty)

text \<open>The amended C2 on an edit that breaks the match and on one that restores it.\<close>

theorem validate_mismatch_iff_unequal_witness:
  "truthyOpt (repeatPassword (errors (validate Password (js ''abd'')
      (filledIn (js ''a@b.com'') (js ''abc'') (js ''abc''))))) \<and>
   \<not> truthyOpt (repeatPassword (errors (validate PasswordValidate (js ''abc'')
      (filledIn (js ''a@b.com'') (js ''abc'') (js ''ab'')))))"
  using validate_mismatch_iff_unequal
    [of "js ''abd''" "filledIn (js ''a@b.com'') (js ''abc'') (js ''abc'')"]
    validate_mismatch_iff_unequal
    [of "js ''abc''" "filledIn (js ''a@b.com'') (js ''abc'') (js ''ab'')"]
  by code_simp

text \<open>
  C2 as stated fails: with \<open>abc\<close> in both fields, clearing the password sets the mismatch
  error, although one of the two values is now empty.
\<close>

theorem validate_mismatch_one_empty_counterexample:
  "truthyOpt (repeatPassword (errors (validate Password []
      (filledIn (js ''a@b.com'') (js ''abc'') (js ''abc''))))) \<and>
   \<not> (truthy (trim (password (formData (validate Password []
         (filledIn (js ''a@b.com'') (js ''abc'') (js ''abc'')))))) \<and>
      truthy (trim (passwordValidate (formData (validate Password []
         (filledIn (js ''a@b.com'') (js ''abc'') (js ''abc'')))))) \<and>
      password (formData (validate Password []
         (filledIn (js ''a@b.com'') (js ''abc'') (js ''abc'')))) \<noteq>
      passwordValidate (formData (validate Password []
         (filledIn (js ''a@b.com'') (js ''abc'') (js ''abc'')))))"
  by (simp add: validate_def filledIn_def initialState_def js_def truthy_def trim_def
      PASSWORDS_DO_NOT_MATCH_nonempty)

subsection \<open>C3: the password policy\<close>

text \<open>
  C3 at the password \<open>ABCDEF1\<close>, U+2028, \<open>a\<close>. It has 9 characters, among them a lowercase
  letter, an uppercase letter, a digit and a character outside \<open>[A-Za-z0-9]\<close>, and is not
  blank; \<open>validatePassword\<close> answers with the policy message all the same, since the
  lowercase letter stands behind a line separator, which the dot of \<open>(?=.*[a-z])\<close> does
  not cross. (\<open>validatePassword_accepts\<close> above says what the pattern accepts in general,
  \<open>validatePassword_single_line\<close> that C3 holds of every string without a line terminator.)
\<close>

theorem validatePassword_line_separator:
  "validatePassword (js ''ABCDEF1'' @ [0x2028] @ js ''a'') = PASSWORD_REQUIREMENTS_MISMATCH \<and>
   policyAsSpecified (js ''ABCDEF1'' @ [0x2028] @ js ''a'') \<and>
   truthy (trim (js ''ABCDEF1'' @ [0x2028] @ js ''a''))"
  by code_simp

subsection \<open>C4: \<open>validate\<close> and the mismatch error\<close>

text \<open>
  C4. \<open>validate\<close> on the password field with the new value \<open>v\<close> sets the mismatch error from
  the comparison of \<open>v\<close> with the stored confirmation, and on the confirmation field from the
  comparison of \<open>v\<close> with the stored password; on the email field it changes the email error
  only and leaves the password, confirmation and mismatch errors as they were. With
  \<open>Abc12345!\<close> in both password fields, editing the password to \<open>Abc12345!X\<close> sets the
  mismatch error to the message that the passwords do not match.
\<close>

theorem validate_recomputes_mismatch:
  "repeatPassword (errors (validate Password v st)) =
     Some (if v = passwordValidate (formData st) then [] else PASSWORDS_DO_NOT_MATCH) \<and>
   repeatPassword (errors (validate PasswordValidate v st)) =
     Some (if v = password (formData st) then [] else PASSWORDS_DO_NOT_MATCH) \<and>
   errors (validate Email v st) = (errors st)\<lparr>emailError := validateEmpty v\<rparr> \<and>
   passwordError (errors (validate Email v st)) = passwordError (errors st) \<and>
   passwordValidateError (errors (validate Email v st)) = passwordValidateError (errors st) \<and>
   repeatPassword (errors (validate Email v st)) = repeatPassword (errors st) \<and>
   repeatPassword (errors (validate Password (js ''Abc12345!X'')
     (st\<lparr>formData := \<lparr>email = e, password = js ''Abc12345!'',
                       passwordValidate = js ''Abc12345!''\<rparr>\<rparr>))) =
     Some PASSWORDS_DO_NOT_MATCH"
  by (simp add: validate_def js_def)

text \<open>C4 on the filled-in form: the example of the claim, and an edit of the email.\<close>

theorem validate_recomputes_mismatch_witness:
  "repeatPassword (errors (validate Password (js ''Abc12345!X'')
      (filledIn (js ''a@b.com'') (js ''Abc12345!'') (js ''Abc12345!'')))) =
     Some PASSWORDS_DO_NOT_MATCH \<and>
   errors (validate Email []
      (validate Password (js ''Abc12345!X'')
        (filledIn (js ''a@b.com'') (js ''Abc12345!'') (js ''Abc12345!'')))) =
     \<lparr>emailError = REQUIRED, passwordError = [],
      repeatPassword = Some PASSWORDS_DO_NOT_MATCH, passwordValidateError = []\<rparr>"
  using validate_recomputes_mismatch
    [of "[]" "validate Password (js ''Abc12345!X'')
               (filledIn (js ''a@b.com'') (js ''Abc12345!'') (js ''Abc12345!''))"
        "js ''a@b.com''"]
  by code_simp

subsection \<open>C5: the policy is checked on submit only\<close>

text \<open>
  C5. \<open>validate\<close> on the password field checks the Required condition only: the password
  error it sets is the result of \<open>validateEmpty\<close>, that is, \<open>Required\<close> for a value that is
  empty after trimming and empty otherwise, and so never the policy message. More
  generally, an error field holds the policy message after \<open>validate\<close> on any field only if
  it held it before. \<open>handleSubmit\<close>, for every state, sets the password error to the result
  of \<open>validatePassword\<close> on the stored password: \<open>Required\<close> for a password that is empty
  after trimming, empty for one the pattern accepts (8 code units or more, with a lowercase
  letter, an uppercase letter, a digit and a character outside \<open>[A-Za-z0-9]\<close> within reach
  of the lookaheads), and the policy message for every other. So it sets the policy message
  exactly for the passwords that are not blank and that the pattern refuses, \<open>weak\<close> among
  them.
\<close>

theorem validate_never_policy:
  "passwordError (errors (validate Password v st)) = validateEmpty v \<and>
   passwordError (errors (validate Password v st)) = (if truthy (trim v) then [] else REQUIRED) \<and>
   passwordError (errors (validate Password v st)) \<noteq> PASSWORD_REQUIREMENTS_MISMATCH \<and>
   (emailError (errors (validate fld v st)) = PASSWORD_REQUIREMENTS_MISMATCH \<longrightarrow>
      emailError (errors st) = PASSWORD_REQUIREMENTS_MISMATCH) \<and>
   (passwordError (errors (validate fld v st)) = PASSWORD_REQUIREMENTS_MISMATCH \<longrightarrow>
      passwordError (errors st) = PASSWORD_REQUIREMENTS_MISMATCH) \<and>
   (passwordValidateError (errors (validate fld v st)) = PASSWORD_REQUIREMENTS_MISMATCH \<longrightarrow>
      passwordValidateError (errors st) = PASSWORD_REQUIREMENTS_MISMATCH) \<and>
   (repeatPassword (errors (validate fld v st)) = Some PASSWORD_REQUIREMENTS_MISMATCH \<longrightarrow>
      repeatPassword (errors st) = Some PASSWORD_REQUIREMENTS_MISMATCH) \<and>
   passwordError (errors (fst (handleSubmit register
      (st\<lparr>formData := (formData st)\<lparr>password := js ''weak''\<rparr>\<rparr>)))) =
     PASSWORD_REQUIREMENTS_MISMATCH \<and>
   passwordError (errors (fst (handleSubmit register st))) =
     validatePassword (password (formData st)) \<and>
   passwordError (errors (fst (handleSubmit register st))) =
     (if \<not> truthy (trim (password (formData st))) then REQUIRED
      else if \<not> test passwordRegex (password (formData st)) then PASSWORD_REQUIREMENTS_MISMATCH
      else []) \<and>
   passwordError (errors (fst (handleSubmit register st))) =
     (if \<not> truthy (trim (password (formData st))) then REQUIRED
      else if 8 \<le> length (password (formData st)) \<and>
              list_ex isLower (reach (password (formData st))) \<and>
              list_ex isUpper (reach (password (formData st))) \<and>
              list_ex isDigit (reach (password (formData st))) \<and>
              list_ex isSpecial (reach (password (formData st)))
        then []
      else PASSWORD_REQUIREMENTS_MISMATCH) \<and>
   (passwordError (errors (fst (handleSubmit register st))) = PASSWORD_REQUIREMENTS_MISMATCH \<longleftrightarrow>
      truthy (trim (password (formData st))) \<and> \<not> test passwordRegex (password (formData st)))"
proof -
  have weak: "validatePassword (js ''weak'') = PASSWORD_REQUIREMENTS_MISMATCH"
    by code_simp
  have np: "validateEmpty v \<noteq> PASSWORD_REQUIREMENTS_MISMATCH"
    by (rule validateEmpty_not_policy)
  have e: "[] \<noteq> PASSWORD_REQUIREMENTS_MISMATCH"
    using PASSWORD_REQUIREMENTS_MISMATCH_nonempty by simp
  have incremental:
    "passwordError (errors (validate Password v st)) = validateEmpty v"
    by (simp add: validate_def)
  have required_only: "validateEmpty v = (if truthy (trim v) then [] else REQUIRED)"
    by (simp add: validateEmpty_def)
  have kept:
    "(emailError (errors (validate fld v st)) = PASSWORD_REQUIREMENTS_MISMATCH \<longrightarrow>
        emailError (errors st) = PASSWORD_REQUIREMENTS_MISMATCH) \<and>
     (passwordError (errors (validate fld v st)) = PASSWORD_REQUIREMENTS_MISMATCH \<longrightarrow>
        passwordError (errors st) = PASSWORD_REQUIREMENTS_MISMATCH) \<and>
     (passwordValidateError (errors (validate fld v st)) = PASSWORD_REQUIREMENTS_MISMATCH \<longrightarrow>
        passwordValidateError (errors st) = PASSWORD_REQUIREMENTS_MISMATCH) \<and>
     (repeatPassword (errors (validate fld v st)) = Some PASSWORD_REQUIREMENTS_MISMATCH \<longrightarrow>
        repeatPassword (errors st) = Some PASSWORD_REQUIREMENTS_MISMATCH)"
    using np e PASSWORDS_DO_NOT_MATCH_not_policy
    by (cases fld) (simp_all add: validate_def)
  have at_weak:
    "passwordError (errors (fst (handleSubmit register
        (st\<lparr>formData := (formData st)\<lparr>password := js ''weak''\<rparr>\<rparr>)))) =
       PASSWORD_REQUIREMENTS_MISMATCH"
    by (simp add: handleSubmit_state_errors weak)
  have submit:
    "passwordError (errors (fst (handleSubmit register st))) =
       validatePassword (password (formData st))"
    by (simp add: handleSubmit_state_errors)
  have by_pattern:
    "validatePassword (password (formData st)) =
       (if \<not> truthy (trim (password (formData st))) then REQUIRED
        else if \<not> test passwordRegex (password (formData st))
          then PASSWORD_REQUIREMENTS_MISMATCH
        else [])"
    by (simp add: validatePassword_def)
  have by_policy:
    "validatePassword (password (formData st)) =
       (if \<not> truthy (trim (password (formData st))) then REQUIRED
        else if 8 \<le> length (password (formData st)) \<and>
                list_ex isLower (reach (password (formData st))) \<and>
                list_ex isUpper (reach (password (formData st))) \<and>
                list_ex isDigit (reach (password (formData st))) \<and>
                list_ex isSpecial (reach (password (formData st)))
          then []
        else PASSWORD_REQUIREMENTS_MISMATCH)"
    unfolding by_pattern test_passwordRegex by simp
  have exactly:
    "validatePassword (password (formData st)) = PASSWORD_REQUIREMENTS_MISMATCH \<longleftrightarrow>
       truthy (trim (password (formData st))) \<and> \<not> test passwordRegex (password (formData st))"
    using REQUIRED_not_policy e by (simp add: validatePassword_def)
  show ?thesis
    unfolding submit
    using incremental required_only np kept at_weak by_pattern by_policy exactly
    by (simp only: simp_thms)
qed

text \<open>
  C5 after a submit that has set the policy message: editing the email keeps it, editing
  the password (to the same weak password) clears it; a submit of the password
  \<open>abcdefgh\<close>, long enough but all lowercase, sets the policy message, and a submit of
  \<open>Abcdef1!\<close> sets none.
\<close>

theorem validate_never_policy_witness:
  "passwordError (errors (validate Email (js ''a@b.com'')
      (fst (handleSubmit (registerReturning Rejects) (filledIn [] (js ''weak'') (js ''weak'')))))) =
     PASSWORD_REQUIREMENTS_MISMATCH \<and>
   passwordError (errors
      (fst (handleSubmit (registerReturning Rejects) (filledIn [] (js ''weak'') (js ''weak''))))) =
     PASSWORD_REQUIREMENTS_MISMATCH \<and>
   passwordError (errors (validate Password (js ''weak'')
      (fst (handleSubmit (registerReturning Rejects) (filledIn [] (js ''weak'') (js ''weak'')))))) = [] \<and>
   passwordError (errors (fst (handleSubmit (registerReturning Rejects)
      (filledIn [] (js ''abcdefgh'') (js ''abcdefgh''))))) = PASSWORD_REQUIREMENTS_MISMATCH \<and>
   passwordError (errors (fst (handleSubmit (registerReturning Rejects)
      (filledIn [] (js ''Abcdef1!'') (js ''Abcdef1!''))))) = []"
proof -
  let ?S = "fst (handleSubmit (registerReturning Rejects) (filledIn [] (js ''weak'') (js ''weak'')))"
  have edited:
    "passwordError (errors (validate Email (js ''a@b.com'') ?S)) = PASSWORD_REQUIREMENTS_MISMATCH"
    by code_simp
  have before: "passwordError (errors ?S) = PASSWORD_REQUIREMENTS_MISMATCH"
    using validate_never_policy [of "js ''a@b.com''" ?S Email "registerReturning Rejects"] edited
    by blast
  have retyped: "passwordError (errors (validate Password (js ''weak'') ?S)) = []"
    by code_simp
  have lower: "passwordError (errors (fst (handleSubmit (registerReturning Rejects)
      (filledIn [] (js ''abcdefgh'') (js ''abcdefgh''))))) = PASSWORD_REQUIREMENTS_MISMATCH"
    by code_simp
  have good: "passwordError (errors (fst (handleSubmit (registerReturning Rejects)
      (filledIn [] (js ''Abcdef1!'') (js ''Abcdef1!''))))) = []"
    by code_simp
  show ?thesis
    using edited before retyped lower good by blast
qed

subsection \<open>C6: a submit with a validation error\<close>

text \<open>
  C6. When one of the three errors that \<open>handleSubmit\<close> computes is non-empty, the run
  consists of \<open>preventDefault\<close> alone: \<open>register\<close> is not called and \<open>isSubmitting\<close> is not
  touched.
\<close>

theorem handleSubmit_invalid_no_call:
  assumes "truthy (emailError (errors (fst (handleSubmit register st)))) \<or>
           truthy (passwordError (errors (fst (handleSubmit register st)))) \<or>
           truthy (passwordValidateError (errors (fst (handleSubmit register st))))"
  shows "registerCalls (snd (handleSubmit register st)) = [] \<and>
         snd (handleSubmit register st) = [PreventDefault] \<and>
         isSubmitting (fst (handleSubmit register st)) = isSubmitting st"
  using handleSubmit_rejected [OF assms] by (simp add: registerCalls_def)

text \<open>
  C6 on the two examples of the claim: an empty email gives the email error \<open>Required\<close>, the
  password \<open>weak\<close> the policy message, and neither run calls \<open>register\<close>.
\<close>

theorem handleSubmit_invalid_no_call_witness:
  "emailError (errors (fst (handleSubmit (registerReturning (Resolves \<lparr>message = None\<rparr>))
      (filledIn [] (js ''Abc12345!'') (js ''Abc12345!''))))) = REQUIRED \<and>
   registerCalls (snd (handleSubmit (registerReturning (Resolves \<lparr>message = None\<rparr>))
      (filledIn [] (js ''Abc12345!'') (js ''Abc12345!'')))) = [] \<and>
   passwordError (errors (fst (handleSubmit (registerReturning (Resolves \<lparr>message = None\<rparr>))
      (filledIn (js ''a@b.com'') (js ''weak'') (js ''weak''))))) = PASSWORD_REQUIREMENTS_MISMATCH \<and>
   registerCalls (snd (handleSubmit (registerReturning (Resolves \<lparr>message = None\<rparr>))
      (filledIn (js ''a@b.com'') (js ''weak'') (js ''weak'')))) = []"
proof -
  have a: "truthy (emailError (errors (fst (handleSubmit
      (registerReturning (Resolves \<lparr>message = None\<rparr>))
      (filledIn [] (js ''Abc12345!'') (js ''Abc12345!''))))))"
    by code_simp
  have b: "truthy (passwordError (errors (fst (handleSubmit
      (registerReturning (Resolves \<lparr>message = None\<rparr>))
      (filledIn (js ''a@b.com'') (js ''weak'') (js ''weak''))))))"
    by code_simp
  have c: "emailError (errors (fst (handleSubmit (registerReturning (Resolves \<lparr>message = None\<rparr>))
      (filledIn [] (js ''Abc12345!'') (js ''Abc12345!''))))) = REQUIRED"
    by code_simp
  have d: "passwordError (errors (fst (handleSubmit (registerReturning (Resolves \<lparr>message = None\<rparr>))
      (filledIn (js ''a@b.com'') (js ''weak'') (js ''weak''))))) = PASSWORD_REQUIREMENTS_MISMATCH"
    by code_simp
  show ?thesis
    using handleSubmit_invalid_no_call [OF disjI1, OF a]
      handleSubmit_invalid_no_call [OF disjI2, OF disjI1, OF b] c d
    by blast
qed

subsection \<open>C7: a successful registration\<close>

text \<open>
  C7. When the three errors that \<open>handleSubmit\<close> computes are empty and \<open>register\<close> resolves
  with a response that has no \<open>message\<close>, the run is: \<open>preventDefault\<close>, \<open>isSubmitting\<close> set,
  the call of \<open>register\<close> with the email and the password, one success notification, one
  navigation to \<open>/login\<close>, \<open>isSubmitting\<close> reset. There is exactly one notification and
  exactly one navigation, and \<open>isSubmitting\<close> is false at the end.
\<close>

theorem handleSubmit_success:
  assumes "emailError (errors (fst (handleSubmit register st))) = []"
    and "passwordError (errors (fst (handleSubmit register st))) = []"
    and "passwordValidateError (errors (fst (handleSubmit register st))) = []"
    and "register \<lparr>credEmail = email (formData st), credPassword = password (formData st)\<rparr> =
           Resolves r"
    and "message r = None"
  shows "snd (handleSubmit register st) =
           [PreventDefault, SetIsSubmitting True,
            RegisterCall \<lparr>credEmail = email (formData st), credPassword = password (formData st)\<rparr>,
            ToastSuccess (js ''Registered successfully''), HistoryPush (js ''/login''),
            SetIsSubmitting False] \<and>
         notifications (snd (handleSubmit register st)) =
           [ToastSuccess (js ''Registered successfully'')] \<and>
         navigations (snd (handleSubmit register st)) = [HistoryPush (js ''/login'')] \<and>
         isSubmitting (fst (handleSubmit register st)) = False"
  using handleSubmit_accepted [OF assms(1-3)] assms(4,5)
  by (simp add: notifications_def navigations_def)

text \<open>C7 on the example of the specification.\<close>

theorem handleSubmit_success_witness:
  "snd (handleSubmit (registerReturning (Resolves \<lparr>message = None\<rparr>))
      (filledIn (js ''a@b.com'') (js ''Abc12345!'') (js ''Abc12345!''))) =
     [PreventDefault, SetIsSubmitting True,
      RegisterCall \<lparr>credEmail = js ''a@b.com'', credPassword = js ''Abc12345!''\<rparr>,
      ToastSuccess (js ''Registered successfully''), HistoryPush (js ''/login''),
      SetIsSubmitting False] \<and>
   isSubmitting (fst (handleSubmit (registerReturning (Resolves \<lparr>message = None\<rparr>))
      (filledIn (js ''a@b.com'') (js ''Abc12345!'') (js ''Abc12345!'')))) = False"
proof -
  have a: "emailError (errors (fst (handleSubmit (registerReturning (Resolves \<lparr>message = None\<rparr>))
      (filledIn (js ''a@b.com'') (js ''Abc12345!'') (js ''Abc12345!''))))) = []"
    by code_simp
  have b: "passwordError (errors (fst (handleSubmit (registerReturning (Resolves \<lparr>message = None\<rparr>))
      (filledIn (js ''a@b.com'') (js ''Abc12345!'') (js ''Abc12345!''))))) = []"
    by code_simp
  have c: "passwordValidateError (errors (fst (handleSubmit (registerReturning (Resolves \<lparr>message = None\<rparr>))
      (filledIn (js ''a@b.com'') (js ''Abc12345!'') (js ''Abc12345!''))))) = []"
    by code_simp
  have d: "registerReturning (Resolves \<lparr>message = None\<rparr>)
      \<lparr>credEmail = email (formData (filledIn (js ''a@b.com'') (js ''Abc12345!'') (js ''Abc12345!''))),
       credPassword = password (formData (filledIn (js ''a@b.com'') (js ''Abc12345!'') (js ''Abc12345!'')))\<rparr> =
      Resolves \<lparr>message = None\<rparr>"
    by (simp add: registerReturning_def)
  have e: "message \<lparr>message = None\<rparr> = None" by simp
  have f: "formData (filledIn (js ''a@b.com'') (js ''Abc12345!'') (js ''Abc12345!'')) =
      \<lparr>email = js ''a@b.com'', password = js ''Abc12345!'', passwordValidate = js ''Abc12345!''\<rparr>"
    by (simp add: filledIn_def)
  show ?thesis
    using handleSubmit_success [OF a b c d e] by (simp add: f)
qed

subsection \<open>C8: a failed registration\<close>

text \<open>
  C8, as amended. When the three errors that \<open>handleSubmit\<close> computes are empty: if
  \<open>register\<close> resolves with a response whose \<open>message\<close> is a non-empty string, there is
  exactly one notification, an error with that message, and no navigation; if \<open>register\<close>
  rejects, there is exactly one notification, the generic error, and no navigation. In
  both cases resetting \<open>isSubmitting\<close> is the last step and \<open>isSubmitting\<close> is false at the end.
\<close>

theorem handleSubmit_failure:
  assumes "emailError (errors (fst (handleSubmit register st))) = []"
    and "passwordError (errors (fst (handleSubmit register st))) = []"
    and "passwordValidateError (errors (fst (handleSubmit register st))) = []"
  shows "(register \<lparr>credEmail = email (formData st), credPassword = password (formData st)\<rparr> =
            Resolves r \<and> message r = Some m \<and> m \<noteq> [] \<longrightarrow>
          notifications (snd (handleSubmit register st)) = [ToastError m] \<and>
          navigations (snd (handleSubmit register st)) = [] \<and>
          isSubmitting (fst (handleSubmit register st)) = False \<and>
          last (snd (handleSubmit register st)) = SetIsSubmitting False) \<and>
         (register \<lparr>credEmail = email (formData st), credPassword = password (formData st)\<rparr> =
            Rejects \<longrightarrow>
          notifications (snd (handleSubmit register st)) =
            [ToastError (js ''An error occurred while registering'')] \<and>
          navigations (snd (handleSubmit register st)) = [] \<and>
          isSubmitting (fst (handleSubmit register st)) = False \<and>
          last (snd (handleSubmit register st)) = SetIsSubmitting False)"
  using handleSubmit_accepted [OF assms]
  by (simp add: notifications_def navigations_def truthy_def)

text \<open>
  The amended C8 on the message \<open>Email taken\<close> and on a call that rejects.
\<close>

theorem handleSubmit_failure_witness:
  "notifications (snd (handleSubmit (registerReturning (Resolves \<lparr>message = Some (js ''Email taken'')\<rparr>))
      (filledIn (js ''a@b.com'') (js ''Abc12345!'') (js ''Abc12345!'')))) =
     [ToastError (js ''Email taken'')] \<and>
   navigations (snd (handleSubmit (registerReturning (Resolves \<lparr>message = Some (js ''Email taken'')\<rparr>))
      (filledIn (js ''a@b.com'') (js ''Abc12345!'') (js ''Abc12345!'')))) = [] \<and>
   isSubmitting (fst (handleSubmit (registerReturning (Resolves \<lparr>message = Some (js ''Email taken'')\<rparr>))
      (filledIn (js ''a@b.com'') (js ''Abc12345!'') (js ''Abc12345!'')))) = False \<and>
   notifications (snd (handleSubmit (registerReturning Rejects)
      (filledIn (js ''a@b.com'') (js ''Abc12345!'') (js ''Abc12345!'')))) =
     [ToastError (js ''An error occurred while registering'')] \<and>
   navigations (snd (handleSubmit (registerReturning Rejects)
      (filledIn (js ''a@b.com'') (js ''Abc12345!'') (js ''Abc12345!'')))) = [] \<and>
   isSubmitting (fst (handleSubmit (registerReturning Rejects)
      (filledIn (js ''a@b.com'') (js ''Abc12345!'') (js ''Abc12345!'')))) = False"
proof -
  let ?S = "filledIn (js ''a@b.com'') (js ''Abc12345!'') (js ''Abc12345!'')"
  let ?R = "registerReturning (Resolves \<lparr>message = Some (js ''Email taken'')\<rparr>)"
  let ?T = "registerReturning Rejects"
  have a: "emailError (errors (fst (handleSubmit ?R ?S))) = []" by code_simp
  have b: "passwordError (errors (fst (handleSubmit ?R ?S))) = []" by code_simp
  have c: "passwordValidateError (errors (fst (handleSubmit ?R ?S))) = []" by code_simp
  have a': "emailError (errors (fst (handleSubmit ?T ?S))) = []" by code_simp
  have b': "passwordError (errors (fst (handleSubmit ?T ?S))) = []" by code_simp
  have c': "passwordValidateError (errors (fst (handleSubmit ?T ?S))) = []" by code_simp
  have m: "js ''Email taken'' \<noteq> []" by (simp add: js_def)
  show ?thesis
    using handleSubmit_failure [OF a b c, of "\<lparr>message = Some (js ''Email taken'')\<rparr>" "js ''Email taken''"]
      handleSubmit_failure [OF a' b' c', of "\<lparr>message = Some (js ''Email taken'')\<rparr>" "js ''Email taken''"] m
    by (simp add: registerReturning_def)
qed

text \<open>
  C8 as stated fails for a response that carries the empty string as its \<open>message\<close>: the
  notification is not an error with that text, and there is a navigation.
\<close>

theorem handleSubmit_empty_message_counterexample:
  "message \<lparr>message = Some []\<rparr> = Some [] \<and>
   notifications (snd (handleSubmit (registerReturning (Resolves \<lparr>message = Some []\<rparr>))
      (filledIn (js ''a@b.com'') (js ''Abc12345!'') (js ''Abc12345!'')))) \<noteq> [ToastError []] \<and>
   navigations (snd (handleSubmit (registerReturning (Resolves \<lparr>message = Some []\<rparr>))
      (filledIn (js ''a@b.com'') (js ''Abc12345!'') (js ''Abc12345!'')))) \<noteq> []"
  by code_simp

subsection \<open>C9: the submit button\<close>

text \<open>
  C9. The submit button is disabled exactly when \<open>isSubmitting\<close> holds or one of the email,
  password and confirmation errors is non-empty; it is disabled whenever \<open>isSubmitting\<close>
  holds, and changing the mismatch error does not change it.
\<close>

theorem submitDisabled_iff:
  "(submitDisabled st \<longleftrightarrow>
      isSubmitting st \<or> emailError (errors st) \<noteq> [] \<or> passwordError (errors st) \<noteq> [] \<or>
      passwordValidateError (errors st) \<noteq> []) \<and>
   submitDisabled (st\<lparr>isSubmitting := True\<rparr>) \<and>
   submitDisabled (st\<lparr>errors := (errors st)\<lparr>repeatPassword := m\<rparr>\<rparr>) = submitDisabled st"
  by (simp add: submitDisabled_def truthy_def)

text \<open>
  C9 on three states: a mismatch error alone leaves the button enabled; \<open>isSubmitting\<close>
  disables it; an email error disables it.
\<close>

theorem submitDisabled_iff_witness:
  "\<not> submitDisabled (validate PasswordValidate (js ''b'') (filledIn (js ''a@b.com'') (js ''a'') [])) \<and>
   truthyOpt (repeatPassword (errors
     (validate PasswordValidate (js ''b'') (filledIn (js ''a@b.com'') (js ''a'') [])))) \<and>
   submitDisabled ((filledIn (js ''a@b.com'') (js ''a'') (js ''a''))\<lparr>isSubmitting := True\<rparr>) \<and>
   submitDisabled (validate Email [] (filledIn (js ''a@b.com'') (js ''a'') (js ''a'')))"
  using submitDisabled_iff [of "validate PasswordValidate (js ''b'') (filledIn (js ''a@b.com'') (js ''a'') [])" None]
    submitDisabled_iff [of "filledIn (js ''a@b.com'') (js ''a'') (js ''a'')" None]
    submitDisabled_iff [of "validate Email [] (filledIn (js ''a@b.com'') (js ''a'') (js ''a''))" None]
  by code_simp

subsection \<open>C10: a response with an empty message\<close>

text \<open>
  C10. When the three errors that \<open>handleSubmit\<close> computes are empty and \<open>register\<close> resolves
  with a response whose \<open>message\<close> is the empty string, the run is a success: the one
  notification is the success notification, and there is the navigation to \<open>/login\<close>.
\<close>

theorem handleSubmit_empty_message_is_success:
  assumes "emailError (errors (fst (handleSubmit register st))) = []"
    and "passwordError (errors (fst (handleSubmit register st))) = []"
    and "passwordValidateError (errors (fst (handleSubmit register st))) = []"
    and "register \<lparr>credEmail = email (formData st), credPassword = password (formData st)\<rparr> =
           Resolves r"
    and "message r = Some []"
  shows "notifications (snd (handleSubmit register st)) =
           [ToastSuccess (js ''Registered successfully'')] \<and>
         navigations (snd (handleSubmit register st)) = [HistoryPush (js ''/login'')] \<and>
         isSubmitting (fst (handleSubmit register st)) = False"
  using handleSubmit_accepted [OF assms(1-3)] assms(4,5)
  by (simp add: notifications_def navigations_def truthy_def)

text \<open>C10 on the filled-in form of the specification's examples.\<close>

theorem handleSubmit_empty_message_is_success_witness:
  "notifications (snd (handleSubmit (registerReturning (Resolves \<lparr>message = Some []\<rparr>))
      (filledIn (js ''a@b.com'') (js ''Abc12345!'') (js ''Abc12345!'')))) =
     [ToastSuccess (js ''Registered successfully'')] \<and>
   navigations (snd (handleSubmit (registerReturning (Resolves \<lparr>message = Some []\<rparr>))
      (filledIn (js ''a@b.com'') (js ''Abc12345!'') (js ''Abc12345!'')))) =
     [HistoryPush (js ''/login'')]"
proof -
  let ?S = "filledIn (js ''a@b.com'') (js ''Abc12345!'') (js ''Abc12345!'')"
  let ?R = "registerReturning (Resolves \<lparr>message = Some []\<rparr>)"
  have a: "emailError (errors (fst (handleSubmit ?R ?S))) = []" by code_simp
  have b: "passwordError (errors (fst (handleSubmit ?R ?S))) = []" by code_simp
  have c: "passwordValidateError (errors (fst (handleSubmit ?R ?S))) = []" by code_simp
  have d: "?R \<lparr>credEmail = email (formData ?S), credPassword = password (formData ?S)\<rparr> =
      Resolves \<lparr>message = Some []\<rparr>"
    by (simp add: registerReturning_def)
  have e: "message \<lparr>message = Some []\<rparr> = Some []" by simp
  show ?thesis
    using handleSubmit_empty_message_is_success [OF a b c d e] by simp
qed

end
